theory Spec2Isabelle
  imports
    Complex_Main
    "HOL-Library.Multiset"
    "HOL-Library.Char_ord"
    "HOL-Library.List_Lexorder"
begin

section \<open>multielo: the player tracker (src/multielo/player_tracker.py)\<close>

text \<open>
  Player IDs and dates are Python \<^verbatim>\<open>str\<close> values, compared lexicographically; a missing
  date (\<^verbatim>\<open>None\<close>, or a missing cell of a DataFrame) is \<open>None\<close>. Ratings are floats,
  idealised as reals. One entry of \<^verbatim>\<open>Player.rating_history\<close> is a \<^verbatim>\<open>(date, rating)\<close>
  tuple.
\<close>

type_synonym date = string
type_synonym rating = real
type_synonym entry = "date option \<times> rating"

subsection \<open>class Player\<close>

record Player =
  player_id :: string
  rating :: rating
  rating_history :: "entry list"

text \<open>\<^verbatim>\<open>Player._update_rating_history\<close>: \<^verbatim>\<open>self.rating_history.append((date, rating))\<close>.\<close>

definition update_rating_history :: "Player \<Rightarrow> rating \<Rightarrow> date option \<Rightarrow> Player" where
  "update_rating_history p r d = p\<lparr>rating_history := rating_history p @ [(d, r)]\<rparr>"

text \<open>
  \<^verbatim>\<open>Player.__init__(player_id, rating, rating_history=None, date=None)\<close>: with no history
  given the first entry is created, otherwise the given list is taken as it is.
\<close>

definition Player_init :: "string \<Rightarrow> rating \<Rightarrow> entry list option \<Rightarrow> date option \<Rightarrow> Player" where
  "Player_init i r hist d =
     (case hist of
        None \<Rightarrow> update_rating_history \<lparr>player_id = i, rating = r, rating_history = []\<rparr> r d
      | Some h \<Rightarrow> \<lparr>player_id = i, rating = r, rating_history = h\<rparr>)"

text \<open>\<^verbatim>\<open>Player.update_rating(new_rating, date=None)\<close>.\<close>

definition update_rating :: "Player \<Rightarrow> rating \<Rightarrow> date option \<Rightarrow> Player" where
  "update_rating p new_rating d =
     update_rating_history (p\<lparr>rating := new_rating\<rparr>) new_rating d"

text \<open>\<^verbatim>\<open>Player.count_games\<close>: \<^verbatim>\<open>len(self.rating_history) - 1\<close>, which is -1 on an empty history.\<close>

definition count_games :: "Player \<Rightarrow> int" where
  "count_games p = int (length (rating_history p)) - 1"

text \<open>
  The column \<^verbatim>\<open>r\<close> of \<^verbatim>\<open>get_rating_as_of_date\<close>:
  \<^verbatim>\<open>history_df.groupby(["date"]).rank(method="first", ascending=False)\<close>.
  The group key is the date and the only other column is the rating, so the rank is the
  rank of the rating within the rows of the same date, in descending order of rating,
  equal ratings ranked in order of appearance. A row with a missing date is in no group
  and its rank is missing. The row at hand is \<open>(d, r)\<close>, preceded by the rows \<open>pre\<close> and
  followed by the rows \<open>post\<close>.
\<close>

fun group_rank :: "entry list \<Rightarrow> entry list \<Rightarrow> nat option list" where
  "group_rank pre [] = []"
| "group_rank pre ((d, r) # post) =
     (case d of
        None \<Rightarrow> None
      | Some x \<Rightarrow> Some (1 + length [e \<leftarrow> pre. fst e = d \<and> r \<le> snd e]
                         + length [e \<leftarrow> post. fst e = d \<and> r < snd e]))
     # group_rank (pre @ [(d, r)]) post"

text \<open>\<^verbatim>\<open>history_df[history_df["r"] == 1]\<close>: one row per distinct date.\<close>

definition rank_one :: "entry list \<Rightarrow> entry list" where
  "rank_one h = map fst [x \<leftarrow> zip h (group_rank [] h). snd x = Some 1]"

text \<open>
  \<^verbatim>\<open>history_df[history_df["date"] <= date]\<close>: the comparison of an object column with a
  scalar is false on a missing value.
\<close>

definition date_le :: "date \<Rightarrow> entry list \<Rightarrow> (date \<times> rating) list" where
  "date_le d h = [(x, r). (Some x, r) \<leftarrow> h, x \<le> d]"

text \<open>
  \<^verbatim>\<open>sort_values(..., ascending=False)\<close>: pandas reverses the rows, sorts them in
  ascending order and reverses the result.
\<close>

definition sort_values_desc :: "('a \<Rightarrow> 'k::linorder) \<Rightarrow> 'a list \<Rightarrow> 'a list" where
  "sort_values_desc f xs = rev (sort_key f (rev xs))"

text \<open>\<^verbatim>\<open>Player.get_rating_as_of_date(date, default_rating)\<close>.\<close>

definition get_rating_as_of_date :: "Player \<Rightarrow> date \<Rightarrow> rating \<Rightarrow> rating" where
  "get_rating_as_of_date p d default_rating =
     (case sort_values_desc fst (date_le d (rank_one (rating_history p))) of
        [] \<Rightarrow> default_rating
      | row # _ \<Rightarrow> snd row)"







subsection \<open>Sorting a column of objects\<close>



text \<open>
  \<^verbatim>\<open>sort_values(col)\<close>, ascending, on a column that may have missing values: the rows
  with a value are sorted and the rows without one follow, in their order.
\<close>

definition sort_values :: "('a \<Rightarrow> 'k::linorder option) \<Rightarrow> 'a list \<Rightarrow> 'a list" where
  "sort_values key xs =
     map snd (sort_key fst [(k, x). x \<leftarrow> xs, Some k \<leftarrow> [key x]]) @ [x \<leftarrow> xs. key x = None]"

subsection \<open>class Tracker\<close>

text \<open>
  The rater is the injected \<^verbatim>\<open>elo_rater\<close>; its \<^verbatim>\<open>get_new_ratings\<close> (module
  \<^verbatim>\<open>multielo.multielo\<close>) is a parameter of the tracker. \<^verbatim>\<open>player_df\<close> is the DataFrame
  with the columns \<^verbatim>\<open>player_id\<close> and \<^verbatim>\<open>player\<close>, a list of rows. The calls of the
  logger at INFO level leave the tracker as it is and are not modelled.
\<close>

record Tracker =
  elo :: "rating list \<Rightarrow> rating list"
  initial_player_rating :: rating
  player_df :: "(string \<times> Player) list"

text \<open>
  Every error of the tracker is a \<^verbatim>\<open>ValueError\<close>, told apart by its message;
  \<^verbatim>\<open>IndexError\<close> is what indexing past the end of a list raises.
\<close>

datatype error =
    NoPlayerFound string
  | PlayerAlreadyExists string
  | PlayerIdsNotUnique
  | IndexError

text \<open>
  A method of the tracker returns its value, or the error it raises, together with the
  tracker as the call leaves it.
\<close>

type_synonym 'a result = "(error + 'a) \<times> Tracker"

text \<open>
  \<^verbatim>\<open>Tracker._validate_player_df\<close>. Every element of the column \<^verbatim>\<open>player\<close> is a Player
  by its type here.
\<close>

definition validate_player_df :: "Tracker \<Rightarrow> unit result" where
  "validate_player_df t =
     (if \<not> distinct (map fst (player_df t)) then (Inl PlayerIdsNotUnique, t)
      else (Inr (), t\<lparr>player_df := sort_key fst (player_df t)\<rparr>))"

text \<open>\<^verbatim>\<open>Tracker.__init__(elo_rater, initial_rating, player_df=None)\<close>.\<close>

definition Tracker_init ::
  "(rating list \<Rightarrow> rating list) \<Rightarrow> rating \<Rightarrow> (string \<times> Player) list option \<Rightarrow> error + Tracker" where
  "Tracker_init elo_rater initial_rating df =
     (case validate_player_df
             \<lparr>elo = elo_rater, initial_player_rating = initial_rating,
              player_df = (case df of None \<Rightarrow> [] | Some rows \<Rightarrow> rows)\<rparr> of
        (Inl e, _) \<Rightarrow> Inl e
      | (Inr _, t) \<Rightarrow> Inr t)"

text \<open>\<^verbatim>\<open>Tracker.retrieve_existing_player\<close>.\<close>

definition retrieve_existing_player :: "Tracker \<Rightarrow> string \<Rightarrow> Player result" where
  "retrieve_existing_player t pid =
     (if pid \<in> set (map fst (player_df t))
      then (case [p. (i, p) \<leftarrow> player_df t, i = pid] of
              p # _ \<Rightarrow> (Inr p, t)
            | [] \<Rightarrow> (Inl IndexError, t))
      else (Inl (NoPlayerFound pid), t))"

text \<open>\<^verbatim>\<open>Tracker._create_new_player\<close>.\<close>

definition create_new_player :: "Tracker \<Rightarrow> string \<Rightarrow> Player result" where
  "create_new_player t pid =
     (if pid \<in> set (map fst (player_df t)) then (Inl (PlayerAlreadyExists pid), t)
      else
        let player = Player_init pid (initial_player_rating t) None None;
            t1 = t\<lparr>player_df := player_df t @ [(pid, player)]\<rparr>
        in (case validate_player_df t1 of
              (Inl e, t2) \<Rightarrow> (Inl e, t2)
            | (Inr _, t2) \<Rightarrow> (Inr player, t2)))"

text \<open>\<^verbatim>\<open>Tracker._get_or_create_player\<close>.\<close>

definition get_or_create_player :: "Tracker \<Rightarrow> string \<Rightarrow> Player result" where
  "get_or_create_player t pid =
     (if pid \<in> set (map fst (player_df t)) then retrieve_existing_player t pid
      else create_new_player t pid)"

subsection \<open>Tracker.process_data\<close>

text \<open>
  A row of the matchup history: the date and the cells of the place columns, first place
  first, a missing cell being \<open>None\<close>.
\<close>

type_synonym matchup = "date option \<times> string option list"

text \<open>
  \<^verbatim>\<open>[self._get_or_create_player(row[x]) for x in place_cols if not pd.isna(row[x])]\<close>.
  A Player of the list is the object stored in \<^verbatim>\<open>player_df\<close>: the list holds its
  \<^verbatim>\<open>player_id\<close> with the Player as retrieved.
\<close>

fun get_or_create_players :: "Tracker \<Rightarrow> string option list \<Rightarrow> (string \<times> Player) list result" where
  "get_or_create_players t [] = (Inr [], t)"
| "get_or_create_players t (None # cells) = get_or_create_players t cells"
| "get_or_create_players t (Some x # cells) =
     (case get_or_create_player t x of
        (Inl e, t1) \<Rightarrow> (Inl e, t1)
      | (Inr p, t1) \<Rightarrow>
          (case get_or_create_players t1 cells of
             (Inl e, t2) \<Rightarrow> (Inl e, t2)
           | (Inr ps, t2) \<Rightarrow> (Inr ((x, p) # ps), t2)))"

text \<open>
  \<^verbatim>\<open>player.update_rating(...)\<close> on a Player of the list changes the object in
  \<^verbatim>\<open>player_df\<close>: the first row with its \<^verbatim>\<open>player_id\<close>.
\<close>

fun modify_player :: "string \<Rightarrow> (Player \<Rightarrow> Player) \<Rightarrow> (string \<times> Player) list \<Rightarrow> (string \<times> Player) list" where
  "modify_player k f [] = []"
| "modify_player k f ((i, p) # rows) =
     (if i = k then (i, f p) # rows else (i, p) # modify_player k f rows)"

text \<open>
  \<^verbatim>\<open>for i, player in enumerate(players): player.update_rating(new_ratings[i], date=date)\<close>;
  \<^verbatim>\<open>new_ratings[i]\<close> raises once the new ratings are used up.
\<close>

fun update_ratings :: "Tracker \<Rightarrow> string list \<Rightarrow> rating list \<Rightarrow> date option \<Rightarrow> unit result" where
  "update_ratings t [] new_ratings d = (Inr (), t)"
| "update_ratings t (k # ks) [] d = (Inl IndexError, t)"
| "update_ratings t (k # ks) (r # rs) d =
     update_ratings (t\<lparr>player_df := modify_player k (\<lambda>p. update_rating p r d) (player_df t)\<rparr>) ks rs d"

text \<open>The body of the loop over the rows.\<close>

definition process_row :: "Tracker \<Rightarrow> matchup \<Rightarrow> unit result" where
  "process_row t row =
     (case get_or_create_players t (snd row) of
        (Inl e, t1) \<Rightarrow> (Inl e, t1)
      | (Inr players, t1) \<Rightarrow>
          let initial_ratings = map (\<lambda>player. rating (snd player)) players;
              new_ratings = elo t1 initial_ratings
          in update_ratings t1 (map fst players) new_ratings (fst row))"

fun process_rows :: "Tracker \<Rightarrow> matchup list \<Rightarrow> unit result" where
  "process_rows t [] = (Inr (), t)"
| "process_rows t (row # rows) =
     (case process_row t row of
        (Inl e, t1) \<Rightarrow> (Inl e, t1)
      | (Inr _, t1) \<Rightarrow> process_rows t1 rows)"

text \<open>\<^verbatim>\<open>dropna(how="all", axis=0, subset=place_cols)\<close>: a row is kept when a place is filled.\<close>

definition dropna_all :: "matchup list \<Rightarrow> matchup list" where
  "dropna_all rows = [row \<leftarrow> rows. \<exists>c \<in> set (snd row). c \<noteq> None]"

text \<open>\<^verbatim>\<open>Tracker.process_data\<close>.\<close>

definition process_data :: "Tracker \<Rightarrow> matchup list \<Rightarrow> unit result" where
  "process_data t matchup_history_df =
     process_rows t (dropna_all (sort_values fst matchup_history_df))"

subsection \<open>The queries of the tracker\<close>





subsection \<open>Notions used in the properties\<close>

text \<open>
  The history under an id: the history of the Player registered under it, and for an id
  that is not registered the history a new Player starts with.
\<close>

definition history_of :: "Tracker \<Rightarrow> string \<Rightarrow> entry list" where
  "history_of t k =
     (case map_of (player_df t) k of
        None \<Rightarrow> [(None, initial_player_rating t)]
      | Some p \<Rightarrow> rating_history p)"

text \<open>
  Inputs for the examples: a rater that gives the winner 16 points and takes 16 points
  from every other player, and a tracker with this rater, the initial rating 1000 and no
  players.
\<close>

definition example_rater :: "rating list \<Rightarrow> rating list" where
  "example_rater rs = (case rs of [] \<Rightarrow> [] | w # ls \<Rightarrow> (w + 16) # map (\<lambda>r. r - 16) ls)"

definition example_tracker :: Tracker where
  "example_tracker = \<lparr>elo = example_rater, initial_player_rating = 1000, player_df = []\<rparr>"

section \<open>Properties of Player\<close>

lemma rating_history_update_rating:
  "rating_history (update_rating p r d) = rating_history p @ [(d, r)]"
  by (simp add: update_rating_def update_rating_history_def)





text \<open>
  C1. A player created with the rating 1000 on 2024-01-01 whose result of the same day
  is the rating 990: the last entry of the history is the result, (2024-01-01, 990), and
  the rating as of 2024-01-01 is 1000, the rating of the creation entry. Of the
  entries of one date the one with the highest rating is taken, not the last one.
\<close>

theorem get_rating_as_of_date_takes_highest_of_date:
  "get_rating_as_of_date
     (update_rating (Player_init ''A'' 1000 None (Some ''2024-01-01'')) 990 (Some ''2024-01-01''))
     ''2024-01-01'' 1500 = 1000
   \<and> last (rating_history
       (update_rating (Player_init ''A'' 1000 None (Some ''2024-01-01'')) 990 (Some ''2024-01-01'')))
     = (Some ''2024-01-01'', 990)"
  by (simp add: get_rating_as_of_date_def update_rating_def update_rating_history_def
      Player_init_def rank_one_def date_le_def sort_values_desc_def)

section \<open>Properties of the lookups of the tracker\<close>

lemma first_match_map_of:
  "pid \<in> fst ` set df \<Longrightarrow>
     \<exists>p ps. [p. (i, p) \<leftarrow> df, i = pid] = p # ps \<and> map_of df pid = Some p"
proof (induction df)
  case Nil
  then show ?case by simp
next
  case (Cons a df)
  show ?case
  proof (cases "fst a = pid")
    case True
    then show ?thesis by (cases a) simp
  next
    case False
    with Cons.prems have "pid \<in> fst ` set df" by auto
    from Cons.IH[OF this] False show ?thesis by (cases a) auto
  qed
qed

lemma retrieve_registered:
  assumes reg: "pid \<in> fst ` set (player_df t)"
  shows "\<exists>p. retrieve_existing_player t pid = (Inr p, t) \<and> map_of (player_df t) pid = Some p"
proof -
  from first_match_map_of[OF reg] obtain p ps where
    "[p. (i, p) \<leftarrow> player_df t, i = pid] = p # ps" "map_of (player_df t) pid = Some p" by blast
  with reg show ?thesis by (auto simp: retrieve_existing_player_def)
qed

text \<open>
  C7. \<^verbatim>\<open>retrieve_existing_player\<close> raises the error "no player found" exactly when the
  id is in no row of \<^verbatim>\<open>player_df\<close>; for a registered id it returns the Player stored
  with that id. In both cases the tracker is left as it was.
\<close>

theorem retrieve_existing_player_not_found_iff:
  "(pid \<notin> fst ` set (player_df t) \<longrightarrow>
      retrieve_existing_player t pid = (Inl (NoPlayerFound pid), t))
   \<and> (pid \<in> fst ` set (player_df t) \<longrightarrow>
      (\<exists>p. retrieve_existing_player t pid = (Inr p, t)
         \<and> map_of (player_df t) pid = Some p \<and> (pid, p) \<in> set (player_df t)))"
proof (intro conjI impI)
  assume "pid \<notin> fst ` set (player_df t)"
  then show "retrieve_existing_player t pid = (Inl (NoPlayerFound pid), t)"
    by (simp add: retrieve_existing_player_def)
next
  assume "pid \<in> fst ` set (player_df t)"
  from retrieve_registered[OF this] obtain p where
    p: "retrieve_existing_player t pid = (Inr p, t)" "map_of (player_df t) pid = Some p" by blast
  then show "\<exists>p. retrieve_existing_player t pid = (Inr p, t)
         \<and> map_of (player_df t) pid = Some p \<and> (pid, p) \<in> set (player_df t)"
    by (auto dest: map_of_SomeD)
qed

theorem retrieve_existing_player_not_found_iff_witness:
  "retrieve_existing_player
      \<lparr>elo = (\<lambda>rs. rs), initial_player_rating = 1000,
       player_df = [(''A'', Player_init ''A'' 1000 None None)]\<rparr> ''B''
    = (Inl (NoPlayerFound ''B''),
       \<lparr>elo = (\<lambda>rs. rs), initial_player_rating = 1000,
        player_df = [(''A'', Player_init ''A'' 1000 None None)]\<rparr>)
   \<and> retrieve_existing_player
      \<lparr>elo = (\<lambda>rs. rs), initial_player_rating = 1000,
       player_df = [(''A'', Player_init ''A'' 1000 None None)]\<rparr> ''A''
    = (Inr (Player_init ''A'' 1000 None None),
       \<lparr>elo = (\<lambda>rs. rs), initial_player_rating = 1000,
        player_df = [(''A'', Player_init ''A'' 1000 None None)]\<rparr>)"
  using retrieve_existing_player_not_found_iff
      [of "''B''" "\<lparr>elo = (\<lambda>rs. rs), initial_player_rating = 1000,
                     player_df = [(''A'', Player_init ''A'' 1000 None None)]\<rparr>"]
    retrieve_existing_player_not_found_iff
      [of "''A''" "\<lparr>elo = (\<lambda>rs. rs), initial_player_rating = 1000,
                     player_df = [(''A'', Player_init ''A'' 1000 None None)]\<rparr>"]
  by simp

lemma get_or_create_registered:
  assumes reg: "pid \<in> fst ` set (player_df t)"
  shows "\<exists>p. get_or_create_player t pid = (Inr p, t) \<and> map_of (player_df t) pid = Some p"
  using retrieve_registered[OF reg] reg by (simp add: get_or_create_player_def)

lemma create_new_player_fresh:
  assumes "pid \<notin> fst ` set (player_df t)" "distinct (map fst (player_df t))"
  shows "create_new_player t pid =
     (Inr (Player_init pid (initial_player_rating t) None None),
      t\<lparr>player_df := sort_key fst (player_df t @ [(pid, Player_init pid (initial_player_rating t) None None)])\<rparr>)"
  using assms by (simp add: create_new_player_def validate_player_df_def Let_def)

text \<open>
  C8. \<^verbatim>\<open>_create_new_player\<close> on an id that is already in \<^verbatim>\<open>player_df\<close> raises the error
  "already exists" and leaves the tracker as it was. \<^verbatim>\<open>_get_or_create_player\<close> never
  raises that error: for a registered id it returns the stored Player and leaves the
  tracker as it was; for a new id, in a tracker whose ids are unique, it returns a new
  Player with the tracker's initial rating and the one history entry
  \<open>(None, initial rating)\<close>, and adds its row to \<^verbatim>\<open>player_df\<close>, kept sorted by id.
\<close>

theorem create_new_player_already_exists:
  "(pid \<in> fst ` set (player_df t) \<longrightarrow>
      create_new_player t pid = (Inl (PlayerAlreadyExists pid), t)
      \<and> (\<exists>p. get_or_create_player t pid = (Inr p, t) \<and> map_of (player_df t) pid = Some p))
   \<and> fst (get_or_create_player t pid) \<noteq> Inl (PlayerAlreadyExists x)
   \<and> (pid \<notin> fst ` set (player_df t) \<and> distinct (map fst (player_df t)) \<longrightarrow>
      get_or_create_player t pid =
        (Inr \<lparr>player_id = pid, rating = initial_player_rating t,
              rating_history = [(None, initial_player_rating t)]\<rparr>,
         t\<lparr>player_df := sort_key fst (player_df t @
              [(pid, \<lparr>player_id = pid, rating = initial_player_rating t,
                      rating_history = [(None, initial_player_rating t)]\<rparr>)])\<rparr>))"
proof (intro conjI impI)
  assume reg: "pid \<in> fst ` set (player_df t)"
  then show "create_new_player t pid = (Inl (PlayerAlreadyExists pid), t)"
    by (simp add: create_new_player_def)
  from get_or_create_registered[OF reg]
  show "\<exists>p. get_or_create_player t pid = (Inr p, t) \<and> map_of (player_df t) pid = Some p" .
next
  show "fst (get_or_create_player t pid) \<noteq> Inl (PlayerAlreadyExists x)"
  proof (cases "pid \<in> fst ` set (player_df t)")
    case True
    from get_or_create_registered[OF True] show ?thesis by auto
  next
    case False
    then show ?thesis
      by (simp add: get_or_create_player_def create_new_player_def validate_player_df_def Let_def)
  qed
next
  assume "pid \<notin> fst ` set (player_df t) \<and> distinct (map fst (player_df t))"
  then have f: "pid \<notin> fst ` set (player_df t)" and d: "distinct (map fst (player_df t))" by simp_all
  have "Player_init pid (initial_player_rating t) None None =
      \<lparr>player_id = pid, rating = initial_player_rating t,
       rating_history = [(None, initial_player_rating t)]\<rparr>"
    by (simp add: Player_init_def update_rating_history_def)
  with create_new_player_fresh[OF f d] f
  show "get_or_create_player t pid =
        (Inr \<lparr>player_id = pid, rating = initial_player_rating t,
              rating_history = [(None, initial_player_rating t)]\<rparr>,
         t\<lparr>player_df := sort_key fst (player_df t @
              [(pid, \<lparr>player_id = pid, rating = initial_player_rating t,
                      rating_history = [(None, initial_player_rating t)]\<rparr>)])\<rparr>)"
    by (simp add: get_or_create_player_def)
qed

theorem create_new_player_already_exists_witness:
  "create_new_player
      \<lparr>elo = (\<lambda>rs. rs), initial_player_rating = 1000,
       player_df = [(''B'', Player_init ''B'' 1000 None None)]\<rparr> ''B''
    = (Inl (PlayerAlreadyExists ''B''),
       \<lparr>elo = (\<lambda>rs. rs), initial_player_rating = 1000,
        player_df = [(''B'', Player_init ''B'' 1000 None None)]\<rparr>)
   \<and> get_or_create_player
      \<lparr>elo = (\<lambda>rs. rs), initial_player_rating = 1000,
       player_df = [(''B'', Player_init ''B'' 1000 None None)]\<rparr> ''B''
    = (Inr (Player_init ''B'' 1000 None None),
       \<lparr>elo = (\<lambda>rs. rs), initial_player_rating = 1000,
        player_df = [(''B'', Player_init ''B'' 1000 None None)]\<rparr>)
   \<and> get_or_create_player
      \<lparr>elo = (\<lambda>rs. rs), initial_player_rating = 1000,
       player_df = [(''B'', Player_init ''B'' 1000 None None)]\<rparr> ''A''
    = (Inr \<lparr>player_id = ''A'', rating = 1000, rating_history = [(None, 1000)]\<rparr>,
       \<lparr>elo = (\<lambda>rs. rs), initial_player_rating = 1000,
        player_df = [(''A'', \<lparr>player_id = ''A'', rating = 1000, rating_history = [(None, 1000)]\<rparr>),
                     (''B'', Player_init ''B'' 1000 None None)]\<rparr>)"
  using create_new_player_already_exists
      [of "''B''" "\<lparr>elo = (\<lambda>rs. rs), initial_player_rating = 1000,
                     player_df = [(''B'', Player_init ''B'' 1000 None None)]\<rparr>"]
    create_new_player_already_exists
      [of "''A''" "\<lparr>elo = (\<lambda>rs. rs), initial_player_rating = 1000,
                     player_df = [(''B'', Player_init ''B'' 1000 None None)]\<rparr>"]
  by simp

section \<open>Properties of the sorts\<close>

















section \<open>Properties of entries without a date\<close>






section \<open>Properties of process_data\<close>

lemma keyed_rows:
  "[(k, x). x \<leftarrow> xs, Some k \<leftarrow> [key x]] = map (\<lambda>x. (the (key x), x)) [x \<leftarrow> xs. key x \<noteq> None]"
  by (induction xs) (auto split: option.splits)





lemma mset_sort_values: "mset (sort_values key xs) = mset xs"
proof -
  have "mset (sort_values key xs) =
      {#x \<in># mset xs. key x \<noteq> None#} + {#x \<in># mset xs. \<not> key x \<noteq> None#}"
    unfolding sort_values_def keyed_rows by (simp add: multiset.map_comp comp_def)
  then show ?thesis by (simp only: multiset_partition[symmetric])
qed




lemma map_of_first_match: "map_of xs k = map_of [e \<leftarrow> xs. fst e = k] k"
  by (induction xs) auto

lemma map_of_sort_key: "map_of (sort_key fst xs) k = map_of xs k"
proof -
  have "map_of (sort_key fst xs) k = map_of [e \<leftarrow> sort_key fst xs. fst e = k] k"
    by (rule map_of_first_match)
  also have "\<dots> = map_of [e \<leftarrow> xs. fst e = k] k" by (simp only: sort_key_stable)
  also have "\<dots> = map_of xs k" by (rule map_of_first_match[symmetric])
  finally show ?thesis .
qed

lemma map_of_modify_player:
  "map_of (modify_player k f df) j = (if j = k then map_option f (map_of df k) else map_of df j)"
  by (induction df) auto

lemma keys_modify_player: "map fst (modify_player k f df) = map fst df"
  by (induction df) auto

lemma history_of_modify:
  assumes "k \<in> fst ` set (player_df t)"
  shows "history_of (t\<lparr>player_df := modify_player k (\<lambda>p. update_rating p r d) (player_df t)\<rparr>) j
     = (if j = k then history_of t j @ [(d, r)] else history_of t j)"
proof -
  from assms obtain p where "map_of (player_df t) k = Some p"
    by (metis domD dom_map_of_conv_image_fst)
  then show ?thesis
    by (simp add: history_of_def map_of_modify_player rating_history_update_rating split: option.splits)
qed

lemma update_ratings_history:
  "update_ratings t ks new d = (Inr (), t') \<Longrightarrow> set ks \<subseteq> fst ` set (player_df t) \<Longrightarrow>
     history_of t' j = history_of t j @ map (\<lambda>x. (d, snd x)) [x \<leftarrow> zip ks new. fst x = j]
     \<and> initial_player_rating t' = initial_player_rating t
     \<and> length ks \<le> length new"
proof (induction t ks new d rule: update_ratings.induct)
  case (1 t new_ratings d)
  then show ?case by simp
next
  case (2 t k ks d)
  then show ?case by simp
next
  case (3 t k ks r rs d)
  let ?t1 = "t\<lparr>player_df := modify_player k (\<lambda>p. update_rating p r d) (player_df t)\<rparr>"
  from "3.prems" have run: "update_ratings ?t1 ks rs d = (Inr (), t')" by simp
  from "3.prems" have k: "k \<in> fst ` set (player_df t)" and ks: "set ks \<subseteq> fst ` set (player_df t)" by simp_all
  have keys: "fst ` set (player_df ?t1) = fst ` set (player_df t)"
    using keys_modify_player[of k _ "player_df t"] by (metis (no_types, lifting) select_convs(3) set_map simps(3) surjective update_convs(3))
  from "3.IH"[OF run] ks keys
  have ih: "history_of t' j = history_of ?t1 j @ map (\<lambda>x. (d, snd x)) [x \<leftarrow> zip ks rs. fst x = j]"
    "initial_player_rating t' = initial_player_rating ?t1" "length ks \<le> length rs" by simp_all
  show ?case using ih history_of_modify[OF k, of r d j] by simp
qed

lemma count_picks:
  "length ks \<le> length new \<Longrightarrow> length [x \<leftarrow> zip ks new. fst x = j] = count_list ks j"
proof (induction ks arbitrary: new)
  case Nil
  then show ?case by simp
next
  case (Cons k ks)
  then obtain r rs where "new = r # rs" by (cases new) auto
  with Cons show ?case by simp
qed

lemma get_or_create_player_history:
  assumes "get_or_create_player t x = (Inr p, t')"
  shows "history_of t' j = history_of t j
     \<and> initial_player_rating t' = initial_player_rating t
     \<and> elo t' = elo t
     \<and> fst ` set (player_df t') = insert x (fst ` set (player_df t))
     \<and> map_of (player_df t') x = Some p"
proof (cases "x \<in> fst ` set (player_df t)")
  case True
  from retrieve_registered[OF True] assms True
  show ?thesis by (auto simp: get_or_create_player_def)
next
  case False
  let ?p = "Player_init x (initial_player_rating t) None None"
  let ?df = "player_df t @ [(x, ?p)]"
  from assms False have d: "distinct (map fst ?df)"
    and t': "t' = t\<lparr>player_df := sort_key fst ?df\<rparr>" and p: "p = ?p"
    by (auto simp: get_or_create_player_def create_new_player_def validate_player_df_def Let_def
        split: if_splits)
  have none: "map_of (player_df t) x = None" using False by (simp add: map_of_eq_None_iff)
  have m: "map_of (player_df t') i = (if i = x then Some ?p else map_of (player_df t) i)" for i
    unfolding t' using none by (auto simp: map_of_sort_key map_add_def split: option.splits)
  have h: "rating_history ?p = [(None, initial_player_rating t)]"
    by (simp add: Player_init_def update_rating_history_def)
  have "history_of t' j = history_of t j"
    using m[of j] none h by (simp add: history_of_def t' split: option.splits)
  moreover have "fst ` set (player_df t') = insert x (fst ` set (player_df t))"
    unfolding t' by auto
  ultimately show ?thesis using m[of x] p by (simp add: t')
qed

lemma get_or_create_players_history:
  "get_or_create_players t cells = (Inr ps, t') \<Longrightarrow>
     history_of t' j = history_of t j
     \<and> initial_player_rating t' = initial_player_rating t
     \<and> elo t' = elo t
     \<and> fst ` set (player_df t') = fst ` set (player_df t) \<union> set (map fst ps)
     \<and> count_list (map fst ps) j = count_list cells (Some j)"
proof (induction t cells arbitrary: ps rule: get_or_create_players.induct)
  case (1 t)
  then show ?case by simp
next
  case (2 t cells)
  then show ?case by simp
next
  case (3 t x cells)
  from "3.prems" obtain p t1 where g: "get_or_create_player t x = (Inr p, t1)"
    by (auto split: prod.splits sum.splits)
  with "3.prems" obtain ps1 where r: "get_or_create_players t1 cells = (Inr ps1, t')"
    and ps: "ps = (x, p) # ps1"
    by (auto split: prod.splits sum.splits)
  note a = get_or_create_player_history[OF g, of j]
  note b = "3.IH"[OF g[symmetric] refl r]
  show ?case using a b ps by auto
qed


lemma process_row_history:
  assumes "process_row t row = (Inr (), t')"
  shows "\<exists>es. history_of t' j = history_of t j @ es
     \<and> length es = count_list (snd row) (Some j)
     \<and> (\<forall>e \<in> set es. fst e = fst row)
     \<and> initial_player_rating t' = initial_player_rating t"
proof -
  from assms obtain ps t1 where g: "get_or_create_players t (snd row) = (Inr ps, t1)"
    by (auto simp: process_row_def split: prod.splits sum.splits)
  let ?new = "elo t1 (map (\<lambda>player. rating (snd player)) ps)"
  from assms g have u: "update_ratings t1 (map fst ps) ?new (fst row) = (Inr (), t')"
    by (simp add: process_row_def Let_def)
  note a = get_or_create_players_history[OF g, of j]
  from a have sub: "set (map fst ps) \<subseteq> fst ` set (player_df t1)" by blast
  note b = update_ratings_history[OF u sub, of j]
  let ?es = "map (\<lambda>x. (fst row, snd x)) [x \<leftarrow> zip (map fst ps) ?new. fst x = j]"
  have "history_of t' j = history_of t j @ ?es" using a b by simp
  moreover have "length ?es = count_list (snd row) (Some j)"
    using a b count_picks[of "map fst ps" ?new j] by simp
  moreover have "\<forall>e \<in> set ?es. fst e = fst row" by simp
  moreover have "initial_player_rating t' = initial_player_rating t" using a b by simp
  ultimately show ?thesis by blast
qed

lemma process_rows_history:
  "process_rows t rows = (Inr (), t') \<Longrightarrow>
     \<exists>es. history_of t' j = history_of t j @ es
       \<and> length es = sum_list (map (\<lambda>row. count_list (snd row) (Some j)) rows)
       \<and> (\<forall>e \<in> set es. \<exists>row \<in> set rows. Some j \<in> set (snd row) \<and> fst e = fst row)
       \<and> initial_player_rating t' = initial_player_rating t"
proof (induction rows arbitrary: t)
  case Nil
  then show ?case by simp
next
  case (Cons row rows)
  from Cons.prems obtain t1 where r: "process_row t row = (Inr (), t1)"
    and rs: "process_rows t1 rows = (Inr (), t')"
    by (auto split: prod.splits sum.splits)
  from process_row_history[OF r, of j] obtain es1 where
    es1: "history_of t1 j = history_of t j @ es1" "length es1 = count_list (snd row) (Some j)"
      "\<forall>e \<in> set es1. fst e = fst row" "initial_player_rating t1 = initial_player_rating t"
    by blast
  from Cons.IH[OF rs] obtain es2 where
    es2: "history_of t' j = history_of t1 j @ es2"
      "length es2 = sum_list (map (\<lambda>row. count_list (snd row) (Some j)) rows)"
      "\<forall>e \<in> set es2. \<exists>row \<in> set rows. Some j \<in> set (snd row) \<and> fst e = fst row"
      "initial_player_rating t' = initial_player_rating t1"
    by blast
  have named: "Some j \<in> set (snd row)" if "es1 \<noteq> []"
  proof (rule ccontr)
    assume "Some j \<notin> set (snd row)"
    then have "count_list (snd row) (Some j) = 0" by (simp add: count_list_0_iff)
    with es1(2) that show False by simp
  qed
  have "history_of t' j = history_of t j @ (es1 @ es2)" using es1 es2 by simp
  moreover have "length (es1 @ es2) = sum_list (map (\<lambda>row. count_list (snd row) (Some j)) (row # rows))"
    using es1 es2 by simp
  moreover have "\<forall>e \<in> set (es1 @ es2). \<exists>r \<in> set (row # rows). Some j \<in> set (snd r) \<and> fst e = fst r"
    using es1(3) es2(3) named by fastforce
  moreover have "initial_player_rating t' = initial_player_rating t" using es1 es2 by simp
  ultimately show ?case by blast
qed

lemma sum_dropna_all:
  "sum_list (map (\<lambda>row. count_list (snd row) (Some j)) (dropna_all rows))
     = sum_list (map (\<lambda>row. count_list (snd row) (Some j)) rows)"
proof (induction rows)
  case Nil
  then show ?case by (simp add: dropna_all_def)
next
  case (Cons row rows)
  have "count_list (snd row) (Some j) = 0" if "\<not> (\<exists>c \<in> set (snd row). c \<noteq> None)"
    using that by (auto simp: count_list_0_iff)
  with Cons show ?case by (auto simp: dropna_all_def)
qed

lemma sum_sort_values:
  "sum_list (map g (sort_values key xs)) = (sum_list (map g xs) :: nat)"
proof -
  have "sum_list (map g (sort_values key xs)) = sum_mset (image_mset g (mset (sort_values key xs)))"
    by (metis mset_map sum_mset_sum_list)
  also have "\<dots> = sum_mset (image_mset g (mset xs))" by (simp only: mset_sort_values)
  also have "\<dots> = sum_list (map g xs)" by (metis mset_map sum_mset_sum_list)
  finally show ?thesis .
qed

lemma set_dropna_sort_values: "set (dropna_all (sort_values key rows)) \<subseteq> set rows"
proof -
  have "set (sort_values key rows) = set rows"
    using mset_sort_values[of key rows] by (rule mset_eq_setD)
  then show ?thesis by (auto simp: dropna_all_def)
qed

lemma process_data_history:
  assumes "process_data t rows = (Inr (), t')"
  shows "\<exists>es. history_of t' j = history_of t j @ es
       \<and> length es = sum_list (map (\<lambda>row. count_list (snd row) (Some j)) rows)
       \<and> (\<forall>e \<in> set es. \<exists>row \<in> set rows. Some j \<in> set (snd row) \<and> fst e = fst row)
       \<and> initial_player_rating t' = initial_player_rating t"
proof -
  let ?rows = "dropna_all (sort_values fst rows)"
  from assms have "process_rows t ?rows = (Inr (), t')" by (simp add: process_data_def)
  from process_rows_history[OF this, of j] obtain es where
    es: "history_of t' j = history_of t j @ es"
      "length es = sum_list (map (\<lambda>row. count_list (snd row) (Some j)) ?rows)"
      "\<forall>e \<in> set es. \<exists>row \<in> set ?rows. Some j \<in> set (snd row) \<and> fst e = fst row"
      "initial_player_rating t' = initial_player_rating t"
    by blast
  have "length es = sum_list (map (\<lambda>row. count_list (snd row) (Some j)) rows)"
    using es(2) by (simp only: sum_dropna_all sum_sort_values)
  moreover have "\<forall>e \<in> set es. \<exists>row \<in> set rows. Some j \<in> set (snd row) \<and> fst e = fst row"
    using es(3) set_dropna_sort_values[of fst rows] by blast
  ultimately show ?thesis using es(1,4) by blast
qed

lemma sum_count_at_most_once:
  "\<forall>row \<in> set rows. count_list (snd row) c \<le> 1 \<Longrightarrow>
     sum_list (map (\<lambda>row. count_list (snd row) c) rows) = length [row \<leftarrow> rows. c \<in> set (snd row)]"
proof (induction rows)
  case Nil
  then show ?case by simp
next
  case (Cons row rows)
  have "count_list (snd row) c = (if c \<in> set (snd row) then 1 else 0)"
  proof (cases "c \<in> set (snd row)")
    case True
    then have "count_list (snd row) c \<noteq> 0" by (simp add: count_list_0_iff)
    moreover from Cons.prems have "count_list (snd row) c \<le> 1" by simp
    ultimately show ?thesis using True by simp
  next
    case False
    then show ?thesis by (simp add: count_list_0_iff)
  qed
  with Cons show ?case by simp
qed

text \<open>
  C5, amended. \<^verbatim>\<open>count_games\<close> is the length of the history minus one. After a run of
  \<^verbatim>\<open>process_data\<close> without error, the games of the player registered under \<open>k\<close> are
  its games before the run (none for an id that was not registered) plus the number of
  place cells of the rows that hold \<open>k\<close>. For an id that was not registered and that no
  row names twice, this is the number of rows that name it.
\<close>

theorem count_games_counts_placements:
  assumes run: "process_data t rows = (Inr (), t')"
    and p: "map_of (player_df t') k = Some p"
  shows "count_games p = int (length (rating_history p)) - 1
    \<and> count_games p =
        (case map_of (player_df t) k of None \<Rightarrow> 0 | Some q \<Rightarrow> count_games q)
        + int (sum_list (map (\<lambda>row. count_list (snd row) (Some k)) rows))
    \<and> (k \<notin> fst ` set (player_df t) \<and> (\<forall>row \<in> set rows. count_list (snd row) (Some k) \<le> 1) \<longrightarrow>
        count_games p = int (length [row \<leftarrow> rows. Some k \<in> set (snd row)]))"
proof -
  from process_data_history[OF run, of k] obtain es where
    es: "history_of t' k = history_of t k @ es"
      "length es = sum_list (map (\<lambda>row. count_list (snd row) (Some k)) rows)"
    by blast
  have h': "history_of t' k = rating_history p" using p by (simp add: history_of_def)
  have before: "(case map_of (player_df t) k of None \<Rightarrow> 0 | Some q \<Rightarrow> count_games q)
      = int (length (history_of t k)) - 1"
    by (simp add: history_of_def count_games_def split: option.splits)
  have total: "count_games p =
        (case map_of (player_df t) k of None \<Rightarrow> 0 | Some q \<Rightarrow> count_games q)
        + int (sum_list (map (\<lambda>row. count_list (snd row) (Some k)) rows))"
    unfolding before using es h' by (simp add: count_games_def)
  have once: "count_games p = int (length [row \<leftarrow> rows. Some k \<in> set (snd row)])"
    if "k \<notin> fst ` set (player_df t)" "\<forall>row \<in> set rows. count_list (snd row) (Some k) \<le> 1"
  proof -
    from that(1) have "map_of (player_df t) k = None" by (simp add: map_of_eq_None_iff)
    with total sum_count_at_most_once[OF that(2)] show ?thesis by simp
  qed
  show ?thesis using total once by (simp add: count_games_def)
qed





section \<open>Runs of process_data on example tables\<close>

text \<open>The definitions a run of \<^verbatim>\<open>process_data\<close> on a given table unfolds.\<close>

lemmas run_defs = process_data_def sort_values_def dropna_all_def process_row_def
  get_or_create_player_def create_new_player_def validate_player_df_def
  retrieve_existing_player_def Player_init_def update_rating_def update_rating_history_def Let_def
  example_tracker_def example_rater_def

lemma example_tracker_init: "Tracker_init example_rater 1000 None = Inr example_tracker"
  by (simp add: Tracker_init_def validate_player_df_def example_tracker_def)



text \<open>
  C5, as stated, fails for a row that names a player twice: A is in one matchup and has
  two games after it.
\<close>

theorem count_games_counts_repeated_placement:
  "fst (process_data example_tracker [(Some ''2024-01-01'', [Some ''A'', Some ''B'', Some ''A''])]) = Inr ()
   \<and> map (\<lambda>row. (fst row, count_games (snd row)))
        (player_df (snd (process_data example_tracker
           [(Some ''2024-01-01'', [Some ''A'', Some ''B'', Some ''A''])])))
     = [(''A'', 2), (''B'', 1)]
   \<and> length [row \<leftarrow> [(Some ''2024-01-01'', [Some ''A'', Some ''B'', Some ''A''])].
               Some ''A'' \<in> set (snd row)] = 1"
  by (simp add: run_defs count_games_def)

text \<open>C5, amended, on two matchups of the players A and B.\<close>

theorem count_games_counts_placements_witness:
  "process_data example_tracker
      [(Some ''2024-01-01'', [Some ''A'', Some ''B'']), (Some ''2024-01-02'', [Some ''B'', Some ''A'', None])]
    = (Inr (),
       \<lparr>elo = example_rater, initial_player_rating = 1000,
        player_df =
          [(''A'', \<lparr>player_id = ''A'', rating = 1000, rating_history =
               [(None, 1000), (Some ''2024-01-01'', 1016), (Some ''2024-01-02'', 1000)]\<rparr>),
           (''B'', \<lparr>player_id = ''B'', rating = 1000, rating_history =
               [(None, 1000), (Some ''2024-01-01'', 984), (Some ''2024-01-02'', 1000)]\<rparr>)]\<rparr>)
   \<and> count_games \<lparr>player_id = ''A'', rating = 1000, rating_history =
               [(None, 1000), (Some ''2024-01-01'', 1016), (Some ''2024-01-02'', 1000)]\<rparr> = 2"
proof -
  let ?rows = "[(Some ''2024-01-01'', [Some ''A'', Some ''B'']), (Some ''2024-01-02'', [Some ''B'', Some ''A'', None])]"
  let ?pA = "\<lparr>player_id = ''A'', rating = 1000, rating_history =
               [(None, 1000), (Some ''2024-01-01'', 1016), (Some ''2024-01-02'', 1000)]\<rparr>"
  let ?t' = "\<lparr>elo = example_rater, initial_player_rating = 1000,
        player_df =
          [(''A'', ?pA),
           (''B'', \<lparr>player_id = ''B'', rating = 1000, rating_history =
               [(None, 1000), (Some ''2024-01-01'', 984), (Some ''2024-01-02'', 1000)]\<rparr>)]\<rparr>"
  have run: "process_data example_tracker ?rows = (Inr (), ?t')"
    by (simp add: run_defs)
  have p: "map_of (player_df ?t') ''A'' = Some ?pA" by simp
  from count_games_counts_placements[OF run p] run show ?thesis
    by (simp add: example_tracker_def)
qed



end
